theory Spec2Isabelle
  imports Complex_Main "HOL-Library.Multiset"
begin

section \<open>Python values, exceptions and the library boundary\<close>

text \<open>
  The module \<^verbatim>\<open>usage_checker.py\<close> works on values that come out of \<^verbatim>\<open>json.loads\<close>:
  \<^verbatim>\<open>None\<close>, booleans, numbers, strings, lists and dictionaries with string keys.
  \<open>JNull\<close> is Python's \<^verbatim>\<open>None\<close>. Numbers are rationals, which covers the integers and
  every finite float exactly. A dictionary is an association list in which the first
  binding of a key is the one the dictionary holds.
\<close>

datatype json =
    JNull
  | JBool bool
  | JNum rat
  | JStr string
  | JArr "json list"
  | JObj "(string \<times> json) list"

text \<open>
  The exception classes the module can meet. \<open>FileNotFoundError\<close> and
  \<open>PermissionError\<close> are subclasses of \<open>OSError\<close> (of which \<^verbatim>\<open>IOError\<close> is an alias);
  \<open>JSONDecodeError\<close>, \<open>UnicodeDecodeError\<close>, \<open>UnicodeEncodeError\<close> and
  \<open>BinasciiError\<close> are subclasses of \<open>ValueError\<close>. \<open>RecursionError\<close> is a subclass of
  \<open>RuntimeError\<close> and of none of the classes that the module names in a handler.
\<close>

datatype exn =
    OSError
  | FileNotFoundError
  | PermissionError
  | ValueError
  | JSONDecodeError
  | UnicodeDecodeError
  | UnicodeEncodeError
  | BinasciiError
  | AttributeError
  | TypeError
  | KeyError
  | OverflowError
  | RecursionError

text \<open>\<^verbatim>\<open>IOError\<close> is the same class as \<^verbatim>\<open>OSError\<close>.\<close>

abbreviation (input) IOError :: exn where
  "IOError \<equiv> OSError"

type_synonym 'a result = "exn + 'a"

fun isinstance_exn :: "exn \<Rightarrow> exn \<Rightarrow> bool" where
  "isinstance_exn e OSError = (e = OSError \<or> e = FileNotFoundError \<or> e = PermissionError)"
| "isinstance_exn e ValueError =
     (e = ValueError \<or> e = JSONDecodeError \<or> e = UnicodeDecodeError \<or>
      e = UnicodeEncodeError \<or> e = BinasciiError)"
| "isinstance_exn e c = (e = c)"

definition caught :: "exn list \<Rightarrow> exn \<Rightarrow> bool" where
  "caught classes e = list_ex (isinstance_exn e) classes"

text \<open>\<^verbatim>\<open>try: body  except classes: handler\<close>\<close>

definition try_except :: "'a result \<Rightarrow> exn list \<Rightarrow> 'a result \<Rightarrow> 'a result" where
  "try_except body classes handler =
     (case body of
        Inl e \<Rightarrow> if caught classes e then handler else Inl e
      | Inr v \<Rightarrow> Inr v)"

text \<open>Sequencing: an exception of the first computation ends the second.\<close>

definition bindE :: "'a result \<Rightarrow> ('a \<Rightarrow> 'b result) \<Rightarrow> 'b result" where
  "bindE m f = (case m of Inl e \<Rightarrow> Inl e | Inr v \<Rightarrow> f v)"

text \<open>
  \<^verbatim>\<open>x.get(key, default)\<close>: only a dictionary has the method; on every other value
  Python raises \<open>AttributeError\<close>.
\<close>

fun dict_get :: "json \<Rightarrow> string \<Rightarrow> json \<Rightarrow> json result" where
  "dict_get (JObj kvs) k d = Inr (case map_of kvs k of None \<Rightarrow> d | Some v \<Rightarrow> v)"
| "dict_get _ k d = Inl AttributeError"

text \<open>
  \<^verbatim>\<open>key in x\<close>, used by the module only where \<open>x\<close> is already known to be a
  dictionary (a \<^verbatim>\<open>.get\<close> on it has succeeded, or \<^verbatim>\<open>isinstance(x, dict)\<close> holds).
\<close>

fun has_key :: "json \<Rightarrow> string \<Rightarrow> bool" where
  "has_key (JObj kvs) k = (map_of kvs k \<noteq> None)"
| "has_key _ k = False"

fun is_dict :: "json \<Rightarrow> bool" where
  "is_dict (JObj kvs) = True"
| "is_dict _ = False"

text \<open>Python's truth value of a JSON value.\<close>

fun truthy :: "json \<Rightarrow> bool" where
  "truthy JNull = False"
| "truthy (JBool b) = b"
| "truthy (JNum n) = (n \<noteq> 0)"
| "truthy (JStr s) = (s \<noteq> [])"
| "truthy (JArr xs) = (xs \<noteq> [])"
| "truthy (JObj kvs) = (kvs \<noteq> [])"

text \<open>
  A piece of text as \<^verbatim>\<open>json.loads\<close> sees it: either it is not JSON, and the call
  raises \<open>JSONDecodeError\<close>; or its brackets are nested deeper than the interpreter's
  recursion limit allows (about a thousand levels), and the call raises \<open>RecursionError\<close>
  before it has decided whether the text is JSON; or it is the text of a value. Log lines
  and cache files are kept in this form, so the parser of the standard library is not part
  of the model.
\<close>

datatype jtext = Malformed | TooDeep | Parsed json

fun loads :: "jtext \<Rightarrow> json result" where
  "loads Malformed = Inl JSONDecodeError"
| "loads TooDeep = Inl RecursionError"
| "loads (Parsed v) = Inr v"

section \<open>The file system\<close>

text \<open>
  What the module can observe of the disk. \<open>glob_rollout\<close> is the list that
  \<^verbatim>\<open>glob.glob(sessions/**/rollout-*.jsonl, recursive=True)\<close> returns; \<open>stat_mtime\<close> is
  \<^verbatim>\<open>Path(x).stat().st_mtime\<close>, which raises when the file is gone or unreachable by
  then; \<open>read_lines\<close> is \<^verbatim>\<open>open(file, 'r', encoding='utf-8')\<close> followed by
  \<^verbatim>\<open>readlines()\<close>. The cache directory is a map from file names to contents, with the
  faults that opening a file for reading or writing can meet.
\<close>

type_synonym path = string

datatype wfault = OpenFails | WriteFails

record fs =
  sessions_exists :: bool
  glob_rollout :: "path list"
  stat_mtime :: "path \<Rightarrow> rat result"
  read_lines :: "path \<Rightarrow> jtext list result"
  cache_files :: "path \<Rightarrow> jtext option"
  cache_read_fault :: "path \<Rightarrow> bool"
  cache_write_fault :: "path \<Rightarrow> wfault option"

section \<open>Event extractor\<close>

text \<open>
  The body of the loop of \<^verbatim>\<open>_has_token_count_data\<close> for one line: \<open>Inr True\<close> is
  \<^verbatim>\<open>return True\<close>, \<open>Inr False\<close> goes on to the next line (also after a
  \<open>JSONDecodeError\<close>), \<open>Inl e\<close> is an exception that leaves the loop.
\<close>

definition has_token_count_line :: "jtext \<Rightarrow> bool result" where
  "has_token_count_line line =
     try_except
       (bindE (loads line) (\<lambda>data.
        bindE (dict_get data ''payload'' (JObj [])) (\<lambda>payload.
        bindE (dict_get payload ''type'' JNull) (\<lambda>t.
        Inr (t = JStr ''token_count'')))))
       [JSONDecodeError] (Inr False)"

fun has_token_count_loop :: "jtext list \<Rightarrow> bool result" where
  "has_token_count_loop [] = Inr False"
| "has_token_count_loop (line # rest) =
     (case has_token_count_line line of
        Inl e \<Rightarrow> Inl e
      | Inr True \<Rightarrow> Inr True
      | Inr False \<Rightarrow> has_token_count_loop rest)"

text \<open>\<^verbatim>\<open>lines[-20:]\<close>\<close>

definition last20 :: "'a list \<Rightarrow> 'a list" where
  "last20 xs = drop (length xs - 20) xs"

definition has_token_count_data :: "fs \<Rightarrow> path \<Rightarrow> bool result" where
  "has_token_count_data f session_file =
     try_except
       (bindE (read_lines f session_file) (\<lambda>lines.
        has_token_count_loop (rev (last20 lines))))
       [OSError, IOError] (Inr False)"

text \<open>
  The body of the loop of \<^verbatim>\<open>parse_session_file\<close> for one line: \<open>Inr (Some data)\<close> is
  \<^verbatim>\<open>return data\<close>, \<open>Inr None\<close> goes on to the next line.
\<close>

definition parse_line :: "jtext \<Rightarrow> json option result" where
  "parse_line line =
     try_except
       (bindE (loads line) (\<lambda>data.
        bindE (dict_get data ''payload'' (JObj [])) (\<lambda>payload.
        bindE (dict_get payload ''type'' JNull) (\<lambda>t.
        Inr (if t = JStr ''token_count'' \<and> has_key payload ''rate_limits''
             then Some data else None)))))
       [JSONDecodeError] (Inr None)"

fun parse_loop :: "jtext list \<Rightarrow> json result" where
  "parse_loop [] = Inr JNull"
| "parse_loop (line # rest) =
     (case parse_line line of
        Inl e \<Rightarrow> Inl e
      | Inr (Some data) \<Rightarrow> Inr data
      | Inr None \<Rightarrow> parse_loop rest)"

definition parse_session_file :: "fs \<Rightarrow> path \<Rightarrow> json result" where
  "parse_session_file f session_file =
     try_except
       (bindE (read_lines f session_file) (\<lambda>lines. parse_loop (rev lines)))
       [OSError, IOError] (Inr JNull)"

section \<open>Log scanner\<close>

text \<open>
  The key function of the sort, \<^verbatim>\<open>Path(x).stat().st_mtime\<close>, is called on every
  candidate in list order before anything is moved; the first call that raises ends the
  sort with that exception.
\<close>

fun stat_all :: "fs \<Rightarrow> path list \<Rightarrow> (path \<times> rat) list result" where
  "stat_all f [] = Inr []"
| "stat_all f (x # xs) =
     bindE (stat_mtime f x) (\<lambda>m.
     bindE (stat_all f xs) (\<lambda>keyed. Inr ((x, m) # keyed)))"

text \<open>
  \<^verbatim>\<open>list.sort(key=..., reverse=True)\<close> is stable: it reverses the list, sorts it
  ascending with a stable sort, and reverses the result.
\<close>

definition sort_desc :: "(path \<times> rat) list \<Rightarrow> path list" where
  "sort_desc keyed = map fst (rev (sort_key snd (rev keyed)))"

text \<open>
  The loop over \<^verbatim>\<open>session_files[:10]\<close>. Besides what the loop does (\<open>Inr (Some p)\<close>
  is \<^verbatim>\<open>return Path(p)\<close>, \<open>Inr None\<close> is the loop running to its end), the second
  component records the files that were handed to \<^verbatim>\<open>_has_token_count_data\<close>, in order.
\<close>

fun probe_loop :: "fs \<Rightarrow> path list \<Rightarrow> path option result \<times> path list" where
  "probe_loop f [] = (Inr None, [])"
| "probe_loop f (p # ps) =
     (case has_token_count_data f p of
        Inl e \<Rightarrow> (Inl e, [p])
      | Inr True \<Rightarrow> (Inr (Some p), [p])
      | Inr False \<Rightarrow> (case probe_loop f ps of (r, probed) \<Rightarrow> (r, p # probed)))"

definition find_latest_traced :: "fs \<Rightarrow> path option result \<times> path list" where
  "find_latest_traced f =
     (if \<not> sessions_exists f then (Inr None, [])
      else let session_files = glob_rollout f in
        if session_files = [] then (Inr None, [])
        else (case stat_all f session_files of
                Inl e \<Rightarrow> (Inl e, [])
              | Inr keyed \<Rightarrow>
                  let sorted_files = sort_desc keyed in
                  (case probe_loop f (take 10 sorted_files) of
                     (Inr None, probed) \<Rightarrow>
                       (case sorted_files of
                          [] \<Rightarrow> (Inr None, probed)
                        | newest # _ \<Rightarrow> (Inr (Some newest), probed))
                   | (r, probed) \<Rightarrow> (r, probed))))"

definition find_latest_session_file :: "fs \<Rightarrow> path option result" where
  "find_latest_session_file f = fst (find_latest_traced f)"

section \<open>Freshness cache\<close>

text \<open>
  A \<^verbatim>\<open>datetime\<close> is a count of microseconds; \<^verbatim>\<open>fromisoformat\<close> can also return a
  datetime that carries a UTC offset, from which the naive \<^verbatim>\<open>datetime.now()\<close> cannot
  be subtracted.
\<close>

datatype dt = Naive int | Aware int

text \<open>
  The functions of Python's standard library that the module calls and the model does
  not spell out: the text form of a datetime and its parser, \<^verbatim>\<open>strftime\<close> with the
  two formats used, \<^verbatim>\<open>now + timedelta(seconds=x)\<close>, the format specifications
  \<^verbatim>\<open>{x:,}\<close> and \<^verbatim>\<open>{x:.1f}\<close>, \<^verbatim>\<open>base64.b64decode\<close> (\<open>None\<close> when it raises
  \<^verbatim>\<open>binascii.Error\<close>) and the way \<^verbatim>\<open>json.loads\<close> reads a byte string.
  \<open>dump_error\<close> is the exception, if any, that
  \<^verbatim>\<open>json.dump(value, f, indent=2, ensure_ascii=False)\<close> raises on a value for a reason
  other than the disk: \<open>UnicodeEncodeError\<close> when a string of the value has no UTF-8
  encoding (a lone surrogate), \<open>RecursionError\<close> when the value is nested too deeply.
\<close>

record pylib =
  isoformat :: "int \<Rightarrow> string"
  fromisoformat :: "string \<Rightarrow> dt option"
  strftime_ymdhms :: "int \<Rightarrow> string"
  strftime_hms :: "int \<Rightarrow> string"
  add_seconds :: "int \<Rightarrow> json \<Rightarrow> int result"
  format_comma :: "json \<Rightarrow> string result"
  format_1f :: "json \<Rightarrow> string result"
  b64decode :: "string \<Rightarrow> string option"
  bytes_text :: "string \<Rightarrow> jtext"
  dump_error :: "json \<Rightarrow> exn option"

text \<open>\<^verbatim>\<open>s.replace(c, r)\<close> for a one-character \<open>c\<close>.\<close>

definition replace_char :: "char \<Rightarrow> string \<Rightarrow> string \<Rightarrow> string" where
  "replace_char c r s = concat (map (\<lambda>x. if x = c then r else [x]) s)"

definition safe_email :: "string \<Rightarrow> string" where
  "safe_email email =
     replace_char CHR ''+'' ''_plus_''
       (replace_char CHR ''.'' ''_'' (replace_char CHR ''@'' ''_at_'' email))"

text \<open>The name of the cache file inside \<^verbatim>\<open>usage_cache_dir\<close>.\<close>

definition cache_file :: "string \<Rightarrow> path" where
  "cache_file email = safe_email email @ ''_usage.json''"

text \<open>
  \<^verbatim>\<open>with open(cache_file, 'w') as f: json.dump(cache_data, f)\<close>. \<^verbatim>\<open>open\<close> raises
  \<open>ValueError\<close> (embedded null byte) for a name that holds the character NUL, before it
  reaches the disk, and an \<open>OSError\<close> when the disk refuses; in both cases the disk is
  untouched. Once the file is open it has been truncated: when \<^verbatim>\<open>json.dump\<close> raises, or
  the write meets an I/O error, what is left in the file is not JSON.
\<close>

definition write_json :: "pylib \<Rightarrow> fs \<Rightarrow> path \<Rightarrow> json \<Rightarrow> unit result \<times> fs" where
  "write_json lib f name v =
     (if CHR 0x00 \<in> set name then (Inl ValueError, f)
      else if cache_write_fault f name = Some OpenFails then (Inl PermissionError, f)
      else (case dump_error lib v of
              Some e \<Rightarrow> (Inl e, f\<lparr>cache_files := (cache_files f)(name \<mapsto> Malformed)\<rparr>)
            | None \<Rightarrow>
                if cache_write_fault f name = Some WriteFails
                then (Inl OSError, f\<lparr>cache_files := (cache_files f)(name \<mapsto> Malformed)\<rparr>)
                else (Inr (), f\<lparr>cache_files := (cache_files f)(name \<mapsto> Parsed v)\<rparr>)))"

definition save_usage_data :: "pylib \<Rightarrow> int \<Rightarrow> fs \<Rightarrow> string \<Rightarrow> json \<Rightarrow> bool result \<times> fs" where
  "save_usage_data lib now f email usage_data =
     (if email = [] then (Inr False, f)
      else
        let cache_data = JObj [(''email'', JStr email),
                               (''last_updated'', JStr (isoformat lib now)),
                               (''usage_data'', usage_data)]
        in (case write_json lib f (cache_file email) cache_data of
              (r, f') \<Rightarrow>
                (try_except (bindE r (\<lambda>_. Inr True)) [OSError, IOError] (Inr False), f')))"

text \<open>\<^verbatim>\<open>datetime.fromisoformat(x)\<close>: a \<open>TypeError\<close> unless \<open>x\<close> is a string.\<close>

fun py_fromisoformat :: "pylib \<Rightarrow> json \<Rightarrow> dt result" where
  "py_fromisoformat lib (JStr s) =
     (case fromisoformat lib s of None \<Rightarrow> Inl ValueError | Some d \<Rightarrow> Inr d)"
| "py_fromisoformat lib _ = Inl TypeError"

definition hours24 :: int where
  "hours24 = 24 * 3600 * 1000000"

text \<open>\<^verbatim>\<open>datetime.now() - last_updated > timedelta(hours=24)\<close>\<close>

fun expired :: "int \<Rightarrow> dt \<Rightarrow> bool result" where
  "expired now (Naive t) = Inr (now - t > hours24)"
| "expired now (Aware t) = Inl TypeError"

text \<open>\<^verbatim>\<open>open(cache_file, 'r')\<close> of a file that exists.\<close>

definition open_cache :: "fs \<Rightarrow> path \<Rightarrow> jtext \<Rightarrow> jtext result" where
  "open_cache f name text = (if cache_read_fault f name then Inl PermissionError else Inr text)"

definition load_usage_data :: "pylib \<Rightarrow> int \<Rightarrow> fs \<Rightarrow> string \<Rightarrow> json result" where
  "load_usage_data lib now f email =
     (if email = [] then Inr JNull
      else
        try_except
          (case cache_files f (cache_file email) of
             None \<Rightarrow> Inr JNull
           | Some text \<Rightarrow>
               bindE (open_cache f (cache_file email) text) (\<lambda>content.
               bindE (loads content) (\<lambda>cache_data.
               bindE (dict_get cache_data ''last_updated'' (JStr [])) (\<lambda>stamp.
               bindE (py_fromisoformat lib stamp) (\<lambda>last_updated.
               bindE (expired now last_updated) (\<lambda>too_old.
               if too_old then Inr JNull
               else dict_get cache_data ''usage_data'' JNull))))))
          [OSError, IOError, JSONDecodeError, ValueError] (Inr JNull))"

section \<open>Summary assembler\<close>

text \<open>
  The string literals of the module that are not ASCII are written as their UTF-8 bytes.
  \<open>msg_no_session_file\<close> is the error appended when no session file is found,
  \<open>msg_no_usage_data\<close> the one appended when the file holds no usage data.
\<close>

definition msg_no_session_file :: string where
  "msg_no_session_file =
     [CHR 0xE6, CHR 0x9C, CHR 0xAA, CHR 0xE6, CHR 0x89, CHR 0xBE, CHR 0xE5, CHR 0x88,
     CHR 0xB0] @ '' Codex CLI session '' @ [CHR 0xE6, CHR 0x96, CHR 0x87, CHR 0xE4,
     CHR 0xBB, CHR 0xB6]"

definition msg_no_usage_data :: string where
  "msg_no_usage_data =
     [CHR 0xE6, CHR 0x9C, CHR 0xAA, CHR 0xE6, CHR 0x89, CHR 0xBE, CHR 0xE5, CHR 0x88,
     CHR 0xB0, CHR 0xE6, CHR 0x9C, CHR 0x89, CHR 0xE6, CHR 0x95, CHR 0x88, CHR 0xE7,
     CHR 0x9A, CHR 0x84, CHR 0xE7, CHR 0x94, CHR 0xA8, CHR 0xE9, CHR 0x87, CHR 0x8F,
     CHR 0xE6, CHR 0x95, CHR 0xB0, CHR 0xE6, CHR 0x8D, CHR 0xAE, CHR 0xEF, CHR 0xBC,
     CHR 0x8C, CHR 0xE8, CHR 0xAF, CHR 0xB7, CHR 0xE5, CHR 0x85, CHR 0x88, CHR 0xE5,
     CHR 0x9C, CHR 0xA8, CHR 0xE5, CHR 0xBD, CHR 0x93, CHR 0xE5, CHR 0x89, CHR 0x8D,
     CHR 0xE8, CHR 0xB4, CHR 0xA6, CHR 0xE5, CHR 0x8F, CHR 0xB7, CHR 0xE4, CHR 0xB8,
     CHR 0x8B, CHR 0xE4, CHR 0xBD, CHR 0xBF, CHR 0xE7, CHR 0x94, CHR 0xA8] @ '' codex ''
     @ [CHR 0xE5, CHR 0x8F, CHR 0x91, CHR 0xE9, CHR 0x80, CHR 0x81, CHR 0xE6, CHR 0xB6,
     CHR 0x88, CHR 0xE6, CHR 0x81, CHR 0xAF]"

record summary =
  check_time :: string
  status :: string
  token_usage :: json
  rate_limits :: json
  errors :: "string list"

text \<open>\<^verbatim>\<open>x[key]\<close> on a value that is known to be a dictionary holding the key.\<close>

fun dict_index :: "json \<Rightarrow> string \<Rightarrow> json result" where
  "dict_index (JObj kvs) k = (case map_of kvs k of None \<Rightarrow> Inl KeyError | Some v \<Rightarrow> Inr v)"
| "dict_index _ k = Inl TypeError"

text \<open>
  The part of \<^verbatim>\<open>get_usage_summary\<close> after a truthy \<^verbatim>\<open>token_data\<close>: the fields taken
  from the payload, up to \<^verbatim>\<open>summary["status"] = "success"\<close>.
\<close>

definition fill_summary :: "summary \<Rightarrow> json \<Rightarrow> summary result" where
  "fill_summary s0 token_data =
     bindE (dict_get token_data ''payload'' (JObj [])) (\<lambda>payload.
     bindE (dict_get payload ''info'' JNull) (\<lambda>info.
     bindE (if truthy info \<and> is_dict info \<and> has_key info ''total_token_usage''
            then bindE (dict_index info ''total_token_usage'') (\<lambda>u. Inr (s0\<lparr>token_usage := u\<rparr>))
            else Inr s0) (\<lambda>s1.
     bindE (if has_key payload ''rate_limits''
            then bindE (dict_index payload ''rate_limits'') (\<lambda>r. Inr (s1\<lparr>rate_limits := r\<rparr>))
            else Inr s1) (\<lambda>s2.
     Inr (s2\<lparr>status := ''success''\<rparr>)))))"

text \<open>
  \<open>t_check\<close> is the clock when the summary is created, \<open>t_save\<close> the clock when the
  cache entry is written. The email is optional (\<^verbatim>\<open>email: str = None\<close>).
\<close>

definition get_usage_summary ::
  "pylib \<Rightarrow> int \<Rightarrow> int \<Rightarrow> fs \<Rightarrow> string option \<Rightarrow> summary result \<times> fs" where
  "get_usage_summary lib t_check t_save f email =
     (let s0 = \<lparr>check_time = strftime_ymdhms lib t_check, status = ''checking...'',
               token_usage = JObj [], rate_limits = JObj [], errors = []\<rparr>
      in case find_latest_session_file f of
           Inl e \<Rightarrow> (Inl e, f)
         | Inr None \<Rightarrow>
             (Inr (s0\<lparr>errors := errors s0 @ [msg_no_session_file], status := ''failed''\<rparr>), f)
         | Inr (Some session_file) \<Rightarrow>
             (case parse_session_file f session_file of
                Inl e \<Rightarrow> (Inl e, f)
              | Inr token_data \<Rightarrow>
                  if \<not> truthy token_data
                  then (Inr (s0\<lparr>errors := errors s0 @ [msg_no_usage_data],
                                 status := ''failed''\<rparr>), f)
                  else (case fill_summary s0 token_data of
                          Inl e \<Rightarrow> (Inl e, f)
                        | Inr s \<Rightarrow>
                            (case email of
                               None \<Rightarrow> (Inr s, f)
                             | Some addr \<Rightarrow>
                                 if addr \<noteq> [] \<and> status s = ''success''
                                 then (case save_usage_data lib t_save f addr
                                              (JObj [(''check_time'', JStr (check_time s)),
                                                     (''token_usage'', token_usage s),
                                                     (''rate_limits'', rate_limits s)]) of
                                         (Inl e, f') \<Rightarrow> (Inl e, f')
                                       | (Inr _, f') \<Rightarrow> (Inr s, f'))
                                 else (Inr s, f)))))"

section \<open>Rendering\<close>



























section \<open>Identity extraction\<close>

text \<open>\<^verbatim>\<open>s.split(c)\<close> for a one-character separator.\<close>

fun split_on :: "char \<Rightarrow> string \<Rightarrow> string list" where
  "split_on c [] = [[]]"
| "split_on c (x # xs) =
     (if x = c then [] # split_on c xs
      else (case split_on c xs of
              [] \<Rightarrow> [[x]]
            | p # ps \<Rightarrow> (x # p) # ps))"

text \<open>\<^verbatim>\<open>id_token.split(".")\<close>: only a string has the method.\<close>

fun py_split :: "json \<Rightarrow> string list result" where
  "py_split (JStr s) = Inr (split_on CHR ''.'' s)"
| "py_split _ = Inl AttributeError"

definition py_b64decode :: "pylib \<Rightarrow> string \<Rightarrow> string result" where
  "py_b64decode lib s = (case b64decode lib s of None \<Rightarrow> Inl BinasciiError | Some b \<Rightarrow> Inr b)"

text \<open>\<^verbatim>\<open>payload += "=" * (4 - len(payload) % 4)\<close>\<close>

definition pad :: "string \<Rightarrow> string" where
  "pad payload = payload @ replicate (4 - length payload mod 4) CHR ''=''"

text \<open>
  The inner \<^verbatim>\<open>try\<close> of \<^verbatim>\<open>extract_email_from_auth\<close>: \<open>Inr (Some v)\<close> is
  \<^verbatim>\<open>return token_data.get("email")\<close>, \<open>Inr None\<close> is the \<^verbatim>\<open>pass\<close> of the handler.
\<close>

definition decode_email :: "pylib \<Rightarrow> string \<Rightarrow> json option result" where
  "decode_email lib payload =
     try_except
       (bindE (py_b64decode lib payload) (\<lambda>decoded.
        bindE (loads (bytes_text lib decoded)) (\<lambda>token_data.
        bindE (dict_get token_data ''email'' JNull) (\<lambda>email. Inr (Some email)))))
       [ValueError, JSONDecodeError] (Inr None)"

definition extract_email_from_auth :: "pylib \<Rightarrow> json \<Rightarrow> json result" where
  "extract_email_from_auth lib auth_data =
     bindE
       (try_except
          (bindE (dict_get auth_data ''tokens'' (JObj [])) (\<lambda>tokens.
           bindE (dict_get tokens ''id_token'' (JStr [])) (\<lambda>id_token.
           if truthy id_token
           then bindE (py_split id_token) (\<lambda>parts.
                if length parts \<ge> 2
                then decode_email lib (pad (parts ! 1))
                else Inr None)
           else Inr None)))
          [KeyError, TypeError, AttributeError] (Inr None))
       (\<lambda>returned. Inr (case returned of Some v \<Rightarrow> v | None \<Rightarrow> JNull))"

section \<open>Notions used to state the properties\<close>

text \<open>
  A line qualifies for \<^verbatim>\<open>parse_session_file\<close> when it is the text of an object whose
  \<open>payload\<close> is an object with the type tag \<open>token_count\<close> and a \<open>rate_limits\<close> field.
\<close>

fun qualifies :: "jtext \<Rightarrow> bool" where
  "qualifies (Parsed (JObj kvs)) =
     (case map_of kvs ''payload'' of
        Some (JObj pl) \<Rightarrow>
          map_of pl ''type'' = Some (JStr ''token_count'') \<and> map_of pl ''rate_limits'' \<noteq> None
      | _ \<Rightarrow> False)"
| "qualifies _ = False"

text \<open>
  A line is passed over when it is not JSON, or is the text of an object whose \<open>payload\<close>
  is absent or is an object that does not qualify. A line that is JSON of any other shape
  (a list, a number, an object whose \<open>payload\<close> is a string or \<^verbatim>\<open>null\<close>), and a line
  nested too deeply for the parser, is neither.
\<close>

fun skipped :: "jtext \<Rightarrow> bool" where
  "skipped Malformed = True"
| "skipped TooDeep = False"
| "skipped (Parsed (JObj kvs)) =
     (case map_of kvs ''payload'' of
        None \<Rightarrow> True
      | Some (JObj pl) \<Rightarrow>
          \<not> (map_of pl ''type'' = Some (JStr ''token_count'') \<and> map_of pl ''rate_limits'' \<noteq> None)
      | Some _ \<Rightarrow> False)"
| "skipped (Parsed _) = False"

section \<open>Concrete inputs\<close>

text \<open>A disk with an empty sessions directory and an empty, fault-free cache directory.\<close>

definition fs_empty :: fs where
  "fs_empty = \<lparr>sessions_exists = True, glob_rollout = [],
     stat_mtime = (\<lambda>_. Inl FileNotFoundError), read_lines = (\<lambda>_. Inl FileNotFoundError),
     cache_files = (\<lambda>_. None), cache_read_fault = (\<lambda>_. False),
     cache_write_fault = (\<lambda>_. None)\<rparr>"

text \<open>The line \<^verbatim>\<open>{"payload": {"type": "token_count"}}\<close>, and a disk whose one log holds it.\<close>

definition line_tag_only :: jtext where
  "line_tag_only = Parsed (JObj [(''payload'', JObj [(''type'', JStr ''token_count'')])])"

definition fs_tag_only :: fs where
  "fs_tag_only = fs_empty\<lparr>glob_rollout := [''rollout-1.jsonl''],
     stat_mtime := (\<lambda>_. Inr 1), read_lines := (\<lambda>_. Inr [line_tag_only])\<rparr>"

text \<open>
  The line \<^verbatim>\<open>{"payload": {"type": "token_count", "rate_limits": {"n": n}}}\<close>, and a log
  with two such lines between lines that are not JSON.
\<close>

definition line_snapshot :: "rat \<Rightarrow> jtext" where
  "line_snapshot n = Parsed (JObj [(''payload'',
     JObj [(''type'', JStr ''token_count''), (''rate_limits'', JObj [(''n'', JNum n)])])])"

definition fs_two_snapshots :: fs where
  "fs_two_snapshots = fs_empty\<lparr>glob_rollout := [''rollout-2.jsonl''],
     stat_mtime := (\<lambda>_. Inr 2),
     read_lines := (\<lambda>_. Inr [line_snapshot 1, Malformed, line_snapshot 2, Malformed])\<rparr>"

text \<open>
  Three logs with distinct modification times. The newest, \<open>rollout-b\<close>, has no usage
  snapshot in it; the other two have one.
\<close>

definition line_other :: jtext where
  "line_other = Parsed (JObj [(''payload'', JObj [(''type'', JStr ''message'')])])"

definition mtime_three :: "path \<Rightarrow> rat" where
  "mtime_three p = (if p = ''rollout-a.jsonl'' then 1 else if p = ''rollout-b.jsonl'' then 3 else 2)"

definition fs_three :: fs where
  "fs_three = fs_empty\<lparr>
     glob_rollout := [''rollout-a.jsonl'', ''rollout-b.jsonl'', ''rollout-c.jsonl''],
     stat_mtime := (\<lambda>p. Inr (mtime_three p)),
     read_lines := (\<lambda>p. if p = ''rollout-b.jsonl'' then Inr [line_other]
                         else Inr [line_other, line_tag_only, Malformed])\<rparr>"

text \<open>
  The values of the library functions at the arguments the examples below use, a datetime
  being counted in microseconds from 1970-01-01T00:00:00 local time. At every other
  argument the entry is a placeholder, and no example reads it.
\<close>

definition lib_sample :: pylib where
  "lib_sample = \<lparr>
     isoformat = (\<lambda>t. if t = 0 then ''1970-01-01T00:00:00'' else ''1970-01-02T01:00:00''),
     fromisoformat = (\<lambda>s. if s = ''1970-01-01T00:00:00'' then Some (Naive 0)
                          else if s = ''1970-01-02T01:00:00'' then Some (Naive 90000000000)
                          else None),
     strftime_ymdhms = (\<lambda>t. if t = 0 then ''1970-01-01 00:00:00'' else ''1970-01-02 01:00:00''),
     strftime_hms = (\<lambda>t. if t = 0 then ''00:00:00'' else ''01:00:00''),
     add_seconds = (\<lambda>now x. case x of JNum s \<Rightarrow> Inr (now + \<lfloor>s * 1000000\<rfloor>) | _ \<Rightarrow> Inl TypeError),
     format_comma = (\<lambda>x. if x = JNum 150 then Inr ''150'' else if x = JNum 0 then Inr ''0''
                         else Inl TypeError),
     format_1f = (\<lambda>x. if x = JNum (85 / 2) then Inr ''42.5'' else if x = JNum 0 then Inr ''0.0''
                      else Inl TypeError),
     b64decode = (\<lambda>s. if s = ''eyJlbWFpbCI6ImFAYi5jIn0='' then Some ''{\"email\":\"a@b.c\"}''
                      else None),
     bytes_text = (\<lambda>b. if b = ''{\"email\":\"a@b.c\"}''
                       then Parsed (JObj [(''email'', JStr ''a@b.c'')]) else Malformed),
     dump_error = (\<lambda>_. None)\<rparr>"

text \<open>
  A disk on which the glob has found a log that is gone when its modification time is
  read, and one whose log ends with the line \<^verbatim>\<open>[]\<close>, which is JSON and not an object.
\<close>

definition fs_vanished :: fs where
  "fs_vanished = fs_empty\<lparr>glob_rollout := [''rollout-1.jsonl'']\<rparr>"

definition fs_list_line :: fs where
  "fs_list_line = fs_empty\<lparr>glob_rollout := [''rollout-1.jsonl''],
     stat_mtime := (\<lambda>_. Inr 1),
     read_lines := (\<lambda>_. Inr [line_snapshot 1, Parsed (JArr [])])\<rparr>"

text \<open>
  The usage data of a summary, as \<^verbatim>\<open>get_usage_summary\<close> hands them to the cache.
\<close>

definition usage_sample :: json where
  "usage_sample = JObj [(''check_time'', JStr ''1970-01-01 00:00:00''),
     (''token_usage'', JObj [(''total_tokens'', JNum 150)]),
     (''rate_limits'', JObj [(''primary'',
        JObj [(''used_percent'', JNum (85 / 2)), (''resets_in_seconds'', JNum 3600),
              (''window_minutes'', JNum 300)])])]"

text \<open>
  Two cache directories with an entry for \<^verbatim>\<open>user@x.com\<close>: one whose \<open>last_updated\<close>
  is the number 12345, one whose content is the JSON list \<^verbatim>\<open>[]\<close>.
\<close>

definition fs_numeric_stamp :: fs where
  "fs_numeric_stamp = fs_empty\<lparr>cache_files := [''user_at_x_com_usage.json'' \<mapsto>
     Parsed (JObj [(''email'', JStr ''user@x.com''), (''last_updated'', JNum 12345),
                   (''usage_data'', JObj [])])]\<rparr>"

definition fs_list_entry :: fs where
  "fs_list_entry = fs_empty\<lparr>cache_files := [''user_at_x_com_usage.json'' \<mapsto> Parsed (JArr [])]\<rparr>"



text \<open>
  The text that \<^verbatim>\<open>extract_email_from_auth\<close> hands to \<^verbatim>\<open>json.loads\<close>: the auth
  structure is an object, its \<open>tokens\<close> is an object, its \<open>id_token\<close> is a string with at
  least two segments between dots, and the second segment decodes as base64 after padding.
  \<open>token_text\<close> is \<open>None\<close> for every input that is malformed at any of these points.
\<close>

definition token_text :: "pylib \<Rightarrow> json \<Rightarrow> jtext option" where
  "token_text lib auth_data =
     (case auth_data of
        JObj a \<Rightarrow>
          (case map_of a ''tokens'' of
             Some (JObj t) \<Rightarrow>
               (case map_of t ''id_token'' of
                  Some (JStr s) \<Rightarrow>
                    (case split_on CHR ''.'' s of
                       _ # segment # _ \<Rightarrow>
                         (case b64decode lib (pad segment) of
                            Some bytes \<Rightarrow> Some (bytes_text lib bytes)
                          | None \<Rightarrow> None)
                     | _ \<Rightarrow> None)
                | _ \<Rightarrow> None)
           | _ \<Rightarrow> None)
      | _ \<Rightarrow> None)"

text \<open>
  An auth structure whose token carries \<^verbatim>\<open>{"email":"a@b.c"}\<close> in its middle segment.
\<close>

definition auth_sample :: json where
  "auth_sample = JObj [(''tokens'',
     JObj [(''id_token'', JStr ''eyJhbGciOiJub25lIn0.eyJlbWFpbCI6ImFAYi5jIn0.sig'')])]"

text \<open>
  A token whose middle segment, 1334 characters long, is the base64 text of 1000 opening
  brackets, and the library's answers on it: the segment decodes after two padding
  characters, and \<^verbatim>\<open>json.loads\<close> gives up on the nesting.
\<close>

definition deep_segment :: string where
  "deep_segment = concat (replicate 333 ''W1tb'') @ ''Ww''"

definition auth_deep :: json where
  "auth_deep = JObj [(''tokens'',
     JObj [(''id_token'', JStr (''h'' @ CHR ''.'' # deep_segment @ ''.s''))])]"

definition lib_deep :: pylib where
  "lib_deep = lib_sample\<lparr>
     b64decode := (\<lambda>s. if s = deep_segment @ ''==''
                       then Some (replicate 1000 CHR ''['') else None),
     bytes_text := (\<lambda>b. if b = replicate 1000 CHR ''['' then TooDeep else Malformed)\<rparr>"

text \<open>An identity of three characters, the second of which is NUL.\<close>

definition email_nul :: string where
  "email_nul = [CHR ''a'', CHR 0x00, CHR ''b'']"

section \<open>Properties of the event extractor\<close>

lemmas exec_defs = try_except_def bindE_def caught_def

lemma parse_line_qualifies: "qualifies (Parsed d) \<Longrightarrow> parse_line (Parsed d) = Inr (Some d)"
  by (cases d) (auto simp: parse_line_def exec_defs split: option.splits json.splits)

lemma parse_line_skipped: "skipped l \<Longrightarrow> parse_line l = Inr None"
proof (cases l)
  case Malformed
  then show ?thesis by (simp add: parse_line_def exec_defs)
next
  case TooDeep
  assume "skipped l"
  with TooDeep show ?thesis by simp
next
  case (Parsed d)
  assume "skipped l"
  with Parsed show ?thesis
    by (cases d) (auto simp: parse_line_def exec_defs split: option.splits json.splits)
qed

lemma parse_loop_skipped: "\<forall>l\<in>set ls. skipped l \<Longrightarrow> parse_loop ls = Inr JNull"
  by (induction ls) (simp_all add: parse_line_skipped)

lemma parse_loop_found:
  "\<forall>l\<in>set post. skipped l \<Longrightarrow> qualifies (Parsed d) \<Longrightarrow>
   parse_loop (post @ Parsed d # pre) = Inr d"
  by (induction post) (simp_all add: parse_line_skipped parse_line_qualifies)

text \<open>
  C1 (as amended). \<^verbatim>\<open>parse_session_file\<close> returns the whole parsed line, the object
  that holds the payload and not the payload alone, of the last line by file position that
  qualifies, provided every line after it is passed over; it returns \<^verbatim>\<open>None\<close> when
  every line of the file is passed over, and when opening or reading the file raises an
  \<open>OSError\<close>. With two qualifying lines the later one is returned.
\<close>

theorem parse_session_file_latest:
  "(read_lines f p = Inr (pre @ Parsed d # post) \<and> qualifies (Parsed d) \<and>
      (\<forall>l\<in>set post. skipped l) \<longrightarrow> parse_session_file f p = Inr d) \<and>
   (read_lines f p = Inr ls \<and> (\<forall>l\<in>set ls. skipped l) \<longrightarrow>
      parse_session_file f p = Inr JNull) \<and>
   (read_lines f p = Inl e \<and> isinstance_exn e OSError \<longrightarrow>
      parse_session_file f p = Inr JNull)"
proof (intro conjI impI)
  assume a: "read_lines f p = Inr (pre @ Parsed d # post) \<and> qualifies (Parsed d) \<and>
      (\<forall>l\<in>set post. skipped l)"
  then have "parse_loop (rev post @ Parsed d # rev pre) = Inr d"
    by (intro parse_loop_found) simp_all
  with a show "parse_session_file f p = Inr d"
    by (simp add: parse_session_file_def exec_defs)
next
  assume a: "read_lines f p = Inr ls \<and> (\<forall>l\<in>set ls. skipped l)"
  then have "parse_loop (rev ls) = Inr JNull"
    by (intro parse_loop_skipped) simp
  with a show "parse_session_file f p = Inr JNull"
    by (simp add: parse_session_file_def exec_defs)
next
  assume "read_lines f p = Inl e \<and> isinstance_exn e OSError"
  then show "parse_session_file f p = Inr JNull"
    by (simp add: parse_session_file_def exec_defs)
qed

theorem parse_session_file_latest_witness:
  "parse_session_file fs_two_snapshots ''rollout-2.jsonl'' =
     Inr (JObj [(''payload'',
       JObj [(''type'', JStr ''token_count''), (''rate_limits'', JObj [(''n'', JNum 2)])])]) \<and>
   parse_session_file (fs_empty\<lparr>read_lines := (\<lambda>_. Inr [Malformed])\<rparr>) ''x'' = Inr JNull \<and>
   parse_session_file fs_empty ''x'' = Inr JNull"
proof -
  have r: "read_lines fs_two_snapshots ''rollout-2.jsonl'' =
      Inr ([line_snapshot 1, Malformed] @ line_snapshot 2 # [Malformed])"
    by (simp add: fs_two_snapshots_def fs_empty_def)
  have 1: "parse_session_file fs_two_snapshots ''rollout-2.jsonl'' =
     Inr (JObj [(''payload'',
       JObj [(''type'', JStr ''token_count''), (''rate_limits'', JObj [(''n'', JNum 2)])])])"
    using parse_session_file_latest
      [of fs_two_snapshots "''rollout-2.jsonl''" "[line_snapshot 1, Malformed]" _ "[Malformed]"] r
    by (simp add: line_snapshot_def)
  have 2: "parse_session_file (fs_empty\<lparr>read_lines := (\<lambda>_. Inr [Malformed])\<rparr>) ''x'' = Inr JNull"
    using parse_session_file_latest
      [of "fs_empty\<lparr>read_lines := (\<lambda>_. Inr [Malformed])\<rparr>" "''x''" _ _ _ "[Malformed]"]
    by simp
  have 3: "parse_session_file fs_empty ''x'' = Inr JNull"
    using parse_session_file_latest [of fs_empty "''x''" _ _ _ _ FileNotFoundError]
    by (simp add: fs_empty_def)
  from 1 2 3 show ?thesis by simp
qed

text \<open>
  The claim as first stated, that the payload of that line is returned, fails on the log
  with two snapshots: the value returned is not the payload of its later snapshot.
\<close>

theorem parse_session_file_payload_counterexample:
  "parse_session_file fs_two_snapshots ''rollout-2.jsonl'' \<noteq>
     Inr (JObj [(''type'', JStr ''token_count''), (''rate_limits'', JObj [(''n'', JNum 2)])])"
  by (simp add: parse_session_file_def fs_two_snapshots_def fs_empty_def line_snapshot_def
      parse_line_def exec_defs)

text \<open>
  C10. There is a log file on which the quick check \<^verbatim>\<open>_has_token_count_data\<close> answers
  true and \<^verbatim>\<open>parse_session_file\<close> returns \<^verbatim>\<open>None\<close>: its one line has the type tag and
  no \<open>rate_limits\<close> field. The scanner selects that file.
\<close>

theorem quick_check_accepts_unextractable:
  "has_token_count_data fs_tag_only ''rollout-1.jsonl'' = Inr True \<and>
   parse_session_file fs_tag_only ''rollout-1.jsonl'' = Inr JNull \<and>
   find_latest_session_file fs_tag_only = Inr (Some ''rollout-1.jsonl'')"
proof (intro conjI)
  show "has_token_count_data fs_tag_only ''rollout-1.jsonl'' = Inr True"
    by (simp add: has_token_count_data_def fs_tag_only_def fs_empty_def line_tag_only_def
        has_token_count_line_def last20_def exec_defs)
  show "parse_session_file fs_tag_only ''rollout-1.jsonl'' = Inr JNull"
    by (simp add: parse_session_file_def fs_tag_only_def fs_empty_def line_tag_only_def
        parse_line_def exec_defs)
  show "find_latest_session_file fs_tag_only = Inr (Some ''rollout-1.jsonl'')"
    by (simp add: find_latest_session_file_def find_latest_traced_def sort_desc_def
        has_token_count_data_def fs_tag_only_def fs_empty_def line_tag_only_def
        has_token_count_line_def last20_def exec_defs)
qed

section \<open>Properties of the log scanner\<close>

lemma stat_all_ok:
  "\<forall>x\<in>set xs. stat_mtime f x = Inr (mt x) \<Longrightarrow> stat_all f xs = Inr (map (\<lambda>x. (x, mt x)) xs)"
  by (induction xs) (simp_all add: bindE_def)

lemma sort_desc_map:
  "sort_desc (map (\<lambda>x. (x, mt x)) xs) = rev (sort_key mt (rev xs))"
proof -
  have ins: "insort_key snd (x, mt x) (map (\<lambda>x. (x, mt x)) zs) =
      map (\<lambda>x. (x, mt x)) (insort_key mt x zs)" for x zs
    by (induction zs) simp_all
  have "sort_key snd (map (\<lambda>x. (x, mt x)) ys) = map (\<lambda>x. (x, mt x)) (sort_key mt ys)" for ys
    by (induction ys) (simp_all add: ins)
  then show ?thesis
    by (simp add: sort_desc_def rev_map o_def)
qed

lemma desc_sorted:
  assumes "distinct (map mt xs)"
  shows "sorted_wrt (\<lambda>a b. mt a > mt b) (rev (sort_key mt (rev xs)))"
proof -
  let ?s = "sort_key mt (rev xs)"
  have "sorted (map mt ?s)" by (rule sorted_sort_key)
  moreover have "distinct (map mt ?s)"
  proof -
    have "mset (map mt ?s) = mset (map mt xs)" by simp
    then show ?thesis using assms by (metis mset_eq_imp_distinct_iff)
  qed
  ultimately have "sorted_wrt (<) (map mt ?s)"
    by (simp add: strict_sorted_iff)
  then have "sorted_wrt (\<lambda>a b. mt a < mt b) ?s"
    by (simp add: sorted_wrt_map)
  then show ?thesis
    by (simp add: sorted_wrt_rev)
qed

lemma probe_loop_none:
  "\<forall>p\<in>set ps. has_token_count_data f p = Inr False \<Longrightarrow> probe_loop f ps = (Inr None, ps)"
  by (induction ps) simp_all

lemma probe_loop_first:
  "i < length ps \<Longrightarrow> has_token_count_data f (ps ! i) = Inr True \<Longrightarrow>
   \<forall>j<i. has_token_count_data f (ps ! j) = Inr False \<Longrightarrow>
   probe_loop f ps = (Inr (Some (ps ! i)), take (Suc i) ps)"
proof (induction ps arbitrary: i)
  case Nil
  then show ?case by simp
next
  case (Cons p ps)
  show ?case
  proof (cases i)
    case 0
    with Cons.prems show ?thesis by simp
  next
    case (Suc k)
    with Cons.prems have "has_token_count_data f p = Inr False" by auto
    moreover have "probe_loop f ps = (Inr (Some (ps ! k)), take (Suc k) ps)"
      using Cons.prems Suc by (intro Cons.IH) auto
    ultimately show ?thesis using Suc by simp
  qed
qed

lemma probe_loop_prefix: "\<exists>n. snd (probe_loop f ps) = take n ps"
proof (induction ps)
  case Nil
  then show ?case by simp
next
  case (Cons p ps)
  then obtain n where n: "snd (probe_loop f ps) = take n ps" by blast
  show ?case
  proof (cases "has_token_count_data f p")
    case (Inl e)
    then have "snd (probe_loop f (p # ps)) = take 1 (p # ps)" by simp
    then show ?thesis by blast
  next
    case (Inr b)
    show ?thesis
    proof (cases b)
      case True
      with Inr have "snd (probe_loop f (p # ps)) = take 1 (p # ps)" by simp
      then show ?thesis by blast
    next
      case False
      with Inr n have "snd (probe_loop f (p # ps)) = take (Suc n) (p # ps)"
        by (cases "probe_loop f ps") simp
      then show ?thesis by blast
    qed
  qed
qed

text \<open>
  C2. \<^verbatim>\<open>find_latest_session_file\<close> returns \<^verbatim>\<open>None\<close> when the sessions directory does
  not exist or no file matches the pattern. Otherwise, when the candidates have distinct
  modification times \<open>mt\<close>, let \<open>sorted_files\<close> be the candidates in strictly descending
  order of \<open>mt\<close>. The files handed to the quick check are a prefix of at most 10 of
  \<open>sorted_files\<close>, probed in that order; the first candidate among the 10 most recent on
  which the quick check answers true, all earlier ones having answered false, is returned,
  and nothing after it is probed; when the quick check answers false on all of the 10 most
  recent, the single most recent candidate is returned.
\<close>

theorem find_latest_session_file_scan:
  "(\<not> sessions_exists f \<longrightarrow> find_latest_session_file f = Inr None) \<and>
   (glob_rollout f = [] \<longrightarrow> find_latest_session_file f = Inr None) \<and>
   (sessions_exists f \<and> glob_rollout f \<noteq> [] \<and>
    (\<forall>x\<in>set (glob_rollout f). stat_mtime f x = Inr (mt x)) \<and>
    distinct (map mt (glob_rollout f)) \<longrightarrow>
    (\<exists>sorted_files.
       mset sorted_files = mset (glob_rollout f) \<and>
       sorted_wrt (\<lambda>a b. mt a > mt b) sorted_files \<and>
       (\<exists>n\<le>10. snd (find_latest_traced f) = take n sorted_files) \<and>
       (\<forall>i<10. i < length sorted_files \<and>
          has_token_count_data f (sorted_files ! i) = Inr True \<and>
          (\<forall>j<i. has_token_count_data f (sorted_files ! j) = Inr False) \<longrightarrow>
          find_latest_session_file f = Inr (Some (sorted_files ! i)) \<and>
          snd (find_latest_traced f) = take (Suc i) sorted_files) \<and>
       ((\<forall>p\<in>set (take 10 sorted_files). has_token_count_data f p = Inr False) \<longrightarrow>
          find_latest_session_file f = Inr (Some (hd sorted_files)) \<and>
          snd (find_latest_traced f) = take 10 sorted_files)))"
proof (intro conjI impI)
  assume "\<not> sessions_exists f"
  then show "find_latest_session_file f = Inr None"
    by (simp add: find_latest_session_file_def find_latest_traced_def)
next
  assume "glob_rollout f = []"
  then show "find_latest_session_file f = Inr None"
    by (simp add: find_latest_session_file_def find_latest_traced_def)
next
  assume a: "sessions_exists f \<and> glob_rollout f \<noteq> [] \<and>
    (\<forall>x\<in>set (glob_rollout f). stat_mtime f x = Inr (mt x)) \<and>
    distinct (map mt (glob_rollout f))"
  define S where "S = rev (sort_key mt (rev (glob_rollout f)))"
  have perm: "mset S = mset (glob_rollout f)"
    by (simp add: S_def)
  have desc: "sorted_wrt (\<lambda>a b. mt a > mt b) S"
    unfolding S_def using a by (intro desc_sorted) simp
  have ne: "S \<noteq> []"
    using perm a by auto
  have T: "find_latest_traced f =
      (case probe_loop f (take 10 S) of
         (Inr None, probed) \<Rightarrow> (Inr (Some (hd S)), probed)
       | (r, probed) \<Rightarrow> (r, probed))"
  proof -
    have cs: "(case S of [] \<Rightarrow> (Inr None, probed) | newest # _ \<Rightarrow> (Inr (Some newest), probed)) =
        (Inr (Some (hd S)), probed)" for probed :: "path list"
      using ne by (cases S) simp_all
    have st: "stat_all f (glob_rollout f) = Inr (map (\<lambda>x. (x, mt x)) (glob_rollout f))"
      using a by (intro stat_all_ok) simp
    show ?thesis
      using a
      by (simp add: find_latest_traced_def st sort_desc_map S_def [symmetric] cs
          split: prod.splits sum.splits option.splits)
  qed
  have tr: "snd (find_latest_traced f) = snd (probe_loop f (take 10 S))"
    unfolding T by (simp split: prod.splits sum.splits option.splits)
  have pre: "\<exists>n\<le>10. snd (find_latest_traced f) = take n S"
  proof -
    obtain n where "snd (probe_loop f (take 10 S)) = take n (take 10 S)"
      using probe_loop_prefix by blast
    then have "snd (find_latest_traced f) = take (min n 10) S"
      using tr by simp
    then show ?thesis
      by (intro exI [of _ "min n 10"]) simp
  qed
  have first: "find_latest_session_file f = Inr (Some (S ! i)) \<and>
      snd (find_latest_traced f) = take (Suc i) S"
    if "i < 10" "i < length S" "has_token_count_data f (S ! i) = Inr True"
       "\<forall>j<i. has_token_count_data f (S ! j) = Inr False" for i
  proof -
    have "probe_loop f (take 10 S) = (Inr (Some (take 10 S ! i)), take (Suc i) (take 10 S))"
      using that by (intro probe_loop_first) simp_all
    moreover have "take (Suc i) (take 10 S) = take (Suc i) S"
      using that by (simp add: min_def)
    ultimately show ?thesis
      using that by (simp add: find_latest_session_file_def T)
  qed
  have none: "find_latest_session_file f = Inr (Some (hd S)) \<and>
      snd (find_latest_traced f) = take 10 S"
    if "\<forall>p\<in>set (take 10 S). has_token_count_data f p = Inr False"
    using probe_loop_none [OF that] by (simp add: find_latest_session_file_def T)
  show "\<exists>sorted_files.
       mset sorted_files = mset (glob_rollout f) \<and>
       sorted_wrt (\<lambda>a b. mt a > mt b) sorted_files \<and>
       (\<exists>n\<le>10. snd (find_latest_traced f) = take n sorted_files) \<and>
       (\<forall>i<10. i < length sorted_files \<and>
          has_token_count_data f (sorted_files ! i) = Inr True \<and>
          (\<forall>j<i. has_token_count_data f (sorted_files ! j) = Inr False) \<longrightarrow>
          find_latest_session_file f = Inr (Some (sorted_files ! i)) \<and>
          snd (find_latest_traced f) = take (Suc i) sorted_files) \<and>
       ((\<forall>p\<in>set (take 10 sorted_files). has_token_count_data f p = Inr False) \<longrightarrow>
          find_latest_session_file f = Inr (Some (hd sorted_files)) \<and>
          snd (find_latest_traced f) = take 10 sorted_files)"
    using perm desc pre first none by (intro exI [of _ S]) blast
qed

theorem find_latest_session_file_scan_witness:
  "find_latest_session_file (fs_empty\<lparr>sessions_exists := False\<rparr>) = Inr None \<and>
   find_latest_session_file fs_empty = Inr None \<and>
   (\<exists>sorted_files.
       mset sorted_files = mset (glob_rollout fs_three) \<and>
       sorted_wrt (\<lambda>a b. mtime_three a > mtime_three b) sorted_files \<and>
       (\<exists>n\<le>10. snd (find_latest_traced fs_three) = take n sorted_files) \<and>
       (\<forall>i<10. i < length sorted_files \<and>
          has_token_count_data fs_three (sorted_files ! i) = Inr True \<and>
          (\<forall>j<i. has_token_count_data fs_three (sorted_files ! j) = Inr False) \<longrightarrow>
          find_latest_session_file fs_three = Inr (Some (sorted_files ! i)) \<and>
          snd (find_latest_traced fs_three) = take (Suc i) sorted_files) \<and>
       ((\<forall>p\<in>set (take 10 sorted_files). has_token_count_data fs_three p = Inr False) \<longrightarrow>
          find_latest_session_file fs_three = Inr (Some (hd sorted_files)) \<and>
          snd (find_latest_traced fs_three) = take 10 sorted_files)) \<and>
   find_latest_traced fs_three =
     (Inr (Some ''rollout-c.jsonl''), [''rollout-b.jsonl'', ''rollout-c.jsonl''])"
proof -
  have h: "sessions_exists fs_three \<and> glob_rollout fs_three \<noteq> [] \<and>
      (\<forall>x\<in>set (glob_rollout fs_three). stat_mtime fs_three x = Inr (mtime_three x)) \<and>
      distinct (map mtime_three (glob_rollout fs_three))"
    by (simp add: fs_three_def fs_empty_def mtime_three_def)
  have 1: "find_latest_session_file (fs_empty\<lparr>sessions_exists := False\<rparr>) = Inr None"
    using find_latest_session_file_scan [of "fs_empty\<lparr>sessions_exists := False\<rparr>"] by simp
  have 2: "find_latest_session_file fs_empty = Inr None"
    using find_latest_session_file_scan [of fs_empty] by (simp add: fs_empty_def)
  have 3: "find_latest_traced fs_three =
     (Inr (Some ''rollout-c.jsonl''), [''rollout-b.jsonl'', ''rollout-c.jsonl''])"
    by (simp add: find_latest_traced_def sort_desc_def has_token_count_data_def
        has_token_count_line_def last20_def fs_three_def fs_empty_def mtime_three_def
        line_other_def line_tag_only_def exec_defs)
  from find_latest_session_file_scan [of fs_three mtime_three] h 1 2 3 show ?thesis
    by blast
qed

text \<open>
  C3 (the code at two failing inputs). The claim is that no exception leaves the scanner
  or the summary. On the code, a log that is removed between the glob and the sort makes
  \<^verbatim>\<open>stat()\<close> raise \<open>FileNotFoundError\<close> inside \<^verbatim>\<open>find_latest_session_file\<close>, which has
  no handler, and \<^verbatim>\<open>get_usage_summary\<close> passes the exception on. A log line that is JSON
  and not an object makes \<^verbatim>\<open>.get\<close> raise \<open>AttributeError\<close>, which the handlers for
  \<open>JSONDecodeError\<close> and \<open>OSError\<close> do not catch.
\<close>

theorem scanner_propagates_exceptions:
  "find_latest_session_file fs_vanished = Inl FileNotFoundError \<and>
   fst (get_usage_summary lib t_check t_save fs_vanished email) = Inl FileNotFoundError \<and>
   find_latest_session_file fs_list_line = Inl AttributeError \<and>
   fst (get_usage_summary lib t_check t_save fs_list_line email) = Inl AttributeError \<and>
   parse_session_file fs_list_line ''rollout-1.jsonl'' = Inl AttributeError"
proof -
  have 1: "find_latest_session_file fs_vanished = Inl FileNotFoundError"
    by (simp add: find_latest_session_file_def find_latest_traced_def fs_vanished_def
        fs_empty_def exec_defs)
  have 2: "find_latest_session_file fs_list_line = Inl AttributeError"
    by (simp add: find_latest_session_file_def find_latest_traced_def sort_desc_def
        has_token_count_data_def has_token_count_line_def last20_def fs_list_line_def
        fs_empty_def line_snapshot_def exec_defs)
  have 3: "parse_session_file fs_list_line ''rollout-1.jsonl'' = Inl AttributeError"
    by (simp add: parse_session_file_def parse_line_def fs_list_line_def
        fs_empty_def line_snapshot_def exec_defs)
  from 1 2 3 show ?thesis
    by (simp add: get_usage_summary_def Let_def)
qed

section \<open>Properties of the summary assembler\<close>

text \<open>
  C7. When the sessions directory is absent the scanner returns \<^verbatim>\<open>None\<close>, and whenever
  the scanner returns \<^verbatim>\<open>None\<close>, \<^verbatim>\<open>get_usage_summary\<close> returns a summary with status
  \<open>failed\<close>, the one error message for a missing session file, empty \<open>token_usage\<close> and
  \<open>rate_limits\<close>, and leaves the disk, the cache included, as it was.
\<close>

theorem get_usage_summary_no_log:
  "(\<not> sessions_exists f \<longrightarrow> find_latest_session_file f = Inr None) \<and>
   (find_latest_session_file f = Inr None \<longrightarrow>
      get_usage_summary lib t_check t_save f email =
        (Inr \<lparr>check_time = strftime_ymdhms lib t_check, status = ''failed'',
              token_usage = JObj [], rate_limits = JObj [],
              errors = [msg_no_session_file]\<rparr>, f))"
  by (simp add: get_usage_summary_def Let_def find_latest_session_file_def
      find_latest_traced_def)

theorem get_usage_summary_no_log_witness:
  "find_latest_session_file (fs_empty\<lparr>sessions_exists := False\<rparr>) = Inr None \<and>
   get_usage_summary lib_sample 0 0 (fs_empty\<lparr>sessions_exists := False\<rparr>) (Some ''user@x.com'') =
     (Inr \<lparr>check_time = ''1970-01-01 00:00:00'', status = ''failed'',
           token_usage = JObj [], rate_limits = JObj [],
           errors = [msg_no_session_file]\<rparr>, fs_empty\<lparr>sessions_exists := False\<rparr>)"
  using get_usage_summary_no_log
    [of "fs_empty\<lparr>sessions_exists := False\<rparr>" lib_sample 0 0 "Some ''user@x.com''"]
  by (simp add: lib_sample_def)

section \<open>Properties of the freshness cache\<close>

lemma nul_replace_char:
  "CHR 0x00 \<notin> set r \<Longrightarrow> c \<noteq> CHR 0x00 \<Longrightarrow>
   (CHR 0x00 \<in> set (replace_char c r s)) = (CHR 0x00 \<in> set s)"
  by (induction s) (auto simp: replace_char_def)

lemma nul_cache_file: "(CHR 0x00 \<in> set (cache_file email)) = (CHR 0x00 \<in> set email)"
  by (simp add: cache_file_def safe_email_def nul_replace_char)

text \<open>
  C6 (the code at two failing inputs). The claim is that \<^verbatim>\<open>save_usage_data\<close> never
  raises: false for an empty identity or an I/O error, true otherwise. On the code, an
  identity that holds the character NUL makes \<^verbatim>\<open>open\<close> raise \<open>ValueError\<close>, and usage
  data with a string that has no UTF-8 encoding make \<^verbatim>\<open>json.dump\<close> raise
  \<open>UnicodeEncodeError\<close>, leaving a truncated file; the handler, which names \<open>OSError\<close>
  and \<^verbatim>\<open>IOError\<close> only, catches neither.
\<close>

theorem save_usage_data_raises:
  "save_usage_data lib now fs_empty email_nul usage_data = (Inl ValueError, fs_empty) \<and>
   save_usage_data (lib\<lparr>dump_error := (\<lambda>_. Some UnicodeEncodeError)\<rparr>) now fs_empty
       ''user@x.com'' usage_data =
     (Inl UnicodeEncodeError,
      fs_empty\<lparr>cache_files := (cache_files fs_empty)(cache_file ''user@x.com'' \<mapsto> Malformed)\<rparr>)"
proof (intro conjI)
  have "CHR 0x00 \<in> set (cache_file email_nul)"
    by (simp add: nul_cache_file email_nul_def)
  then show "save_usage_data lib now fs_empty email_nul usage_data = (Inl ValueError, fs_empty)"
    by (simp add: save_usage_data_def write_json_def Let_def exec_defs email_nul_def)
  have "CHR 0x00 \<notin> set (cache_file ''user@x.com'')"
    by (simp add: nul_cache_file)
  then show "save_usage_data (lib\<lparr>dump_error := (\<lambda>_. Some UnicodeEncodeError)\<rparr>) now fs_empty
       ''user@x.com'' usage_data =
     (Inl UnicodeEncodeError,
      fs_empty\<lparr>cache_files := (cache_files fs_empty)(cache_file ''user@x.com'' \<mapsto> Malformed)\<rparr>)"
    by (simp add: save_usage_data_def write_json_def Let_def exec_defs fs_empty_def)
qed

text \<open>
  What the function does on the other inputs, the identity holding no NUL and
  \<^verbatim>\<open>json.dump\<close> being able to write the entry: false for an empty identity and when
  opening or writing the file meets an I/O error; otherwise true, the cache file of the
  identity holding the entry with \<open>last_updated\<close> set to the text of the current time,
  whatever the file held before.
\<close>

lemma save_usage_data_cases:
  "save_usage_data lib now f [] usage_data = (Inr False, f)"
  "email \<noteq> [] \<Longrightarrow> CHR 0x00 \<notin> set email \<Longrightarrow>
     cache_write_fault f (cache_file email) = Some OpenFails \<Longrightarrow>
     save_usage_data lib now f email usage_data = (Inr False, f)"
  "email \<noteq> [] \<Longrightarrow> CHR 0x00 \<notin> set email \<Longrightarrow>
     dump_error lib (JObj [(''email'', JStr email),
                           (''last_updated'', JStr (isoformat lib now)),
                           (''usage_data'', usage_data)]) = None \<Longrightarrow>
     cache_write_fault f (cache_file email) = Some WriteFails \<Longrightarrow>
     fst (save_usage_data lib now f email usage_data) = Inr False"
  "email \<noteq> [] \<Longrightarrow> CHR 0x00 \<notin> set email \<Longrightarrow>
     dump_error lib (JObj [(''email'', JStr email),
                           (''last_updated'', JStr (isoformat lib now)),
                           (''usage_data'', usage_data)]) = None \<Longrightarrow>
     cache_write_fault f (cache_file email) = None \<Longrightarrow>
     save_usage_data lib now f email usage_data =
       (Inr True,
        f\<lparr>cache_files := (cache_files f)(cache_file email \<mapsto>
             Parsed (JObj [(''email'', JStr email),
                           (''last_updated'', JStr (isoformat lib now)),
                           (''usage_data'', usage_data)]))\<rparr>)"
  by (simp_all add: save_usage_data_def write_json_def Let_def exec_defs nul_cache_file)

lemma save_usage_data_True:
  assumes "save_usage_data lib t f email usage_data = (Inr True, f')"
  shows "f' = f\<lparr>cache_files := (cache_files f)(cache_file email \<mapsto>
      Parsed (JObj [(''email'', JStr email), (''last_updated'', JStr (isoformat lib t)),
                    (''usage_data'', usage_data)]))\<rparr>"
  using assms
  by (auto simp: save_usage_data_def write_json_def Let_def exec_defs
      split: if_splits option.splits)

text \<open>
  C4. Let \<^verbatim>\<open>save_usage_data\<close> succeed for a non-empty identity at time \<open>t\<close>, and let
  \<^verbatim>\<open>load_usage_data\<close> run on the resulting disk at a time \<open>t'\<close> less than 24 hours
  later. Then it returns the usage data that were saved. Two facts about the environment
  are used: \<^verbatim>\<open>fromisoformat\<close> reads back what \<^verbatim>\<open>isoformat\<close> wrote, and opening the
  file that was just written meets no I/O error.
\<close>

theorem cache_round_trip:
  assumes "email \<noteq> []"
    and "save_usage_data lib t f email usage_data = (Inr True, f')"
    and "fromisoformat lib (isoformat lib t) = Some (Naive t)"
    and "t' - t < hours24"
    and "\<not> cache_read_fault f' (cache_file email)"
  shows "load_usage_data lib t' f' email = Inr usage_data"
proof -
  note f' = save_usage_data_True [OF assms(2)]
  have r: "\<not> cache_read_fault f (cache_file email)"
    using assms(5) by (simp add: f')
  show ?thesis
    using assms(1,3,4) r
    by (simp add: load_usage_data_def f' open_cache_def exec_defs)
qed

theorem cache_round_trip_witness:
  "save_usage_data lib_sample 0 fs_empty ''user@x.com'' usage_sample =
     (Inr True, snd (save_usage_data lib_sample 0 fs_empty ''user@x.com'' usage_sample)) \<and>
   load_usage_data lib_sample 3600000000
     (snd (save_usage_data lib_sample 0 fs_empty ''user@x.com'' usage_sample)) ''user@x.com'' =
     Inr usage_sample"
proof -
  let ?f' = "snd (save_usage_data lib_sample 0 fs_empty ''user@x.com'' usage_sample)"
  have n: "CHR 0x00 \<notin> set (cache_file ''user@x.com'')"
    by (simp add: nul_cache_file)
  have 1: "''user@x.com'' \<noteq> []" by simp
  have 2: "save_usage_data lib_sample 0 fs_empty ''user@x.com'' usage_sample = (Inr True, ?f')"
    using n
    by (simp add: save_usage_data_def write_json_def Let_def fs_empty_def lib_sample_def
        exec_defs)
  have 3: "fromisoformat lib_sample (isoformat lib_sample 0) = Some (Naive 0)"
    by (simp add: lib_sample_def)
  have 4: "(3600000000::int) - 0 < hours24"
    by (simp add: hours24_def)
  have 5: "\<not> cache_read_fault ?f' (cache_file ''user@x.com'')"
    using n
    by (simp add: save_usage_data_def write_json_def Let_def fs_empty_def lib_sample_def
        exec_defs)
  from cache_round_trip [OF 1 2 3 4 5] 2 show ?thesis by simp
qed

lemma cache_file_sample: "cache_file ''user@x.com'' = ''user_at_x_com_usage.json''"
  by (simp add: cache_file_def safe_email_def replace_char_def)

text \<open>
  C5 (the code at two failing inputs). The claim is that \<^verbatim>\<open>load_usage_data\<close> returns
  \<^verbatim>\<open>None\<close> for an entry whose timestamp cannot be parsed. On the code, a cache entry
  whose \<open>last_updated\<close> is a number makes \<^verbatim>\<open>datetime.fromisoformat\<close> raise
  \<open>TypeError\<close>, and a cache file whose content is JSON and not an object makes
  \<^verbatim>\<open>.get\<close> raise \<open>AttributeError\<close>; the handler of the function catches neither.
\<close>

theorem load_usage_data_raises:
  "load_usage_data lib now fs_numeric_stamp ''user@x.com'' = Inl TypeError \<and>
   load_usage_data lib now fs_list_entry ''user@x.com'' = Inl AttributeError"
  by (simp add: load_usage_data_def cache_file_sample fs_numeric_stamp_def fs_list_entry_def
      fs_empty_def open_cache_def exec_defs)

text \<open>
  What the function does on the other entries: \<^verbatim>\<open>None\<close> for an empty identity, a
  missing or unreadable file, text that is not JSON, a timestamp string that does not parse
  and an entry older than 24 hours; the stored usage data for an entry no older than that.
\<close>

lemma load_usage_data_soft_failures:
  "load_usage_data lib now f [] = Inr JNull"
  "cache_files f (cache_file email) = None \<Longrightarrow> load_usage_data lib now f email = Inr JNull"
  "cache_files f (cache_file email) = Some text \<Longrightarrow> cache_read_fault f (cache_file email) \<Longrightarrow>
     load_usage_data lib now f email = Inr JNull"
  "cache_files f (cache_file email) = Some Malformed \<Longrightarrow>
     load_usage_data lib now f email = Inr JNull"
  "cache_files f (cache_file email) = Some (Parsed (JObj kvs)) \<Longrightarrow>
     map_of kvs ''last_updated'' = Some (JStr s) \<Longrightarrow> fromisoformat lib s = None \<Longrightarrow>
     load_usage_data lib now f email = Inr JNull"
  "cache_files f (cache_file email) = Some (Parsed (JObj kvs)) \<Longrightarrow>
     map_of kvs ''last_updated'' = None \<Longrightarrow> fromisoformat lib [] = None \<Longrightarrow>
     load_usage_data lib now f email = Inr JNull"
  "cache_files f (cache_file email) = Some (Parsed (JObj kvs)) \<Longrightarrow>
     map_of kvs ''last_updated'' = Some (JStr s) \<Longrightarrow> fromisoformat lib s = Some (Naive t) \<Longrightarrow>
     now - t > hours24 \<Longrightarrow> load_usage_data lib now f email = Inr JNull"
  by (simp_all add: load_usage_data_def open_cache_def exec_defs)

lemma load_usage_data_fresh:
  "email \<noteq> [] \<Longrightarrow> cache_files f (cache_file email) = Some (Parsed (JObj kvs)) \<Longrightarrow>
   \<not> cache_read_fault f (cache_file email) \<Longrightarrow>
   map_of kvs ''last_updated'' = Some (JStr s) \<Longrightarrow> fromisoformat lib s = Some (Naive t) \<Longrightarrow>
   now - t \<le> hours24 \<Longrightarrow>
   load_usage_data lib now f email =
     Inr (case map_of kvs ''usage_data'' of None \<Rightarrow> JNull | Some v \<Rightarrow> v)"
  by (simp add: load_usage_data_def open_cache_def exec_defs)

section \<open>Properties of the rendering\<close>






section \<open>Properties of the identity extraction\<close>

lemma decode_email_cases:
  "decode_email lib p =
     (case b64decode lib p of
        None \<Rightarrow> Inr None
      | Some bytes \<Rightarrow>
          (case bytes_text lib bytes of
             Malformed \<Rightarrow> Inr None
           | TooDeep \<Rightarrow> Inl RecursionError
           | Parsed (JObj obj) \<Rightarrow> Inr (Some (case map_of obj ''email'' of None \<Rightarrow> JNull | Some e \<Rightarrow> e))
           | Parsed _ \<Rightarrow> Inl AttributeError))"
  by (simp add: decode_email_def py_b64decode_def exec_defs
      split: option.splits jtext.splits json.splits)

lemma extract_email_from_auth_cases:
  "extract_email_from_auth lib auth_data =
     (case token_text lib auth_data of
        Some TooDeep \<Rightarrow> Inl RecursionError
      | Some (Parsed (JObj obj)) \<Rightarrow> Inr (case map_of obj ''email'' of None \<Rightarrow> JNull | Some e \<Rightarrow> e)
      | _ \<Rightarrow> Inr JNull)"
  unfolding extract_email_from_auth_def token_text_def decode_email_cases
  by (simp add: exec_defs split: json.splits option.splits list.splits jtext.splits)

lemma split_on_first: "c \<notin> set a \<Longrightarrow> split_on c (a @ c # b) = a # split_on c b"
  by (induction a) auto

lemma deep_segment_facts:
  "CHR ''.'' \<notin> set deep_segment" "length deep_segment = 1334"
  by (simp_all add: deep_segment_def length_concat sum_list_replicate)

lemma split_token_deep:
  "split_on CHR ''.'' (''h'' @ CHR ''.'' # deep_segment @ ''.s'') = [''h'', deep_segment, ''s'']"
proof -
  have "split_on CHR ''.'' (''h'' @ CHR ''.'' # (deep_segment @ CHR ''.'' # ''s'')) =
      ''h'' # split_on CHR ''.'' (deep_segment @ CHR ''.'' # ''s'')"
    by (rule split_on_first) simp
  also have "split_on CHR ''.'' (deep_segment @ CHR ''.'' # ''s'') =
      deep_segment # split_on CHR ''.'' ''s''"
    by (rule split_on_first) (rule deep_segment_facts)
  finally show ?thesis by simp
qed

text \<open>
  C9 (the code at a failing input). The claim is that \<^verbatim>\<open>extract_email_from_auth\<close>
  returns \<^verbatim>\<open>None\<close> and never raises when the decoded payload is not JSON. On the code,
  a token whose middle segment decodes to 1000 opening brackets makes \<^verbatim>\<open>json.loads\<close>
  raise \<open>RecursionError\<close>, which is neither a \<open>ValueError\<close> for the inner handler nor a
  \<open>KeyError\<close>, \<open>TypeError\<close> or \<open>AttributeError\<close> for the outer one.
\<close>

theorem extract_email_from_auth_raises:
  "extract_email_from_auth lib_deep auth_deep = Inl RecursionError"
proof -
  have p: "pad deep_segment = deep_segment @ ''==''"
    by (simp add: pad_def deep_segment_facts numeral_2_eq_2)
  have "token_text lib_deep auth_deep = Some TooDeep"
    using split_token_deep by (simp add: token_text_def auth_deep_def p lib_deep_def)
  then show ?thesis
    by (simp add: extract_email_from_auth_cases)
qed

text \<open>
  On every input whose payload the parser can get through, the function returns: the
  \<open>email\<close> field of the object that the middle segment decodes to, and \<^verbatim>\<open>None\<close> when
  a key is missing, a value has the wrong type, the token has fewer than two segments, the
  segment is not base64, or the decoded bytes are not the text of a JSON object.
\<close>

lemma extract_email_from_auth_returns:
  "token_text lib auth_data \<noteq> Some TooDeep \<Longrightarrow> \<exists>v. extract_email_from_auth lib auth_data = Inr v"
  by (simp add: extract_email_from_auth_cases split: option.splits jtext.splits json.splits)

lemma extract_email_from_auth_sample:
  "extract_email_from_auth lib_sample auth_sample = Inr (JStr ''a@b.c'')"
  by (simp add: extract_email_from_auth_cases token_text_def auth_sample_def lib_sample_def
      pad_def)

end
